theory Spec2Isabelle
  imports Main "HOL-Library.Word"
begin

section \<open>Wire types (transport.go, filesystem and process files)\<close>

text \<open>
  A frame is a Go \<open>[]byte\<close>. Go's \<open>int\<close> is modelled at its 64-bit width: \<open>id++\<close> wraps
  around as the language defines it, and \<open>sint\<close> reads the signed value.
\<close>

type_synonym bytes = string
type_synonym goint = "64 word"

text \<open>Go errors as values. The \<open>fmt.Errorf\<close> results keep their arguments.\<close>

datatype error =
    Canceled
  | DeadlineExceeded
  | External string
  | WriteRequestFailed string goint error
  | MkdirDecodeFailed error
  | MkdirFailed string
  | ReadFailed string
  | ProcessStartFailed goint string
  | ProcessStartEmptyResult
  | ProcessStartWrongId string string
  | NotebookExecFailed goint string


text \<open>
  The elements of a request's \<open>Params []any\<close>: the call sites pass strings and, for
  \<open>process_start\<close>, the environment map.
\<close>

datatype any = AString string | AEnv "(string \<times> string) list"

text \<open>
  Struct fields keep their Go names behind a prefix naming the struct
  (\<open>req_\<close> Request, \<open>resp_\<close> Response, \<open>api_\<close> APIError, \<open>dec_\<close> the local \<open>decResp\<close> of
  \<open>read\<close>, \<open>ev_\<close> Event, \<open>ep_\<close> EventParams, \<open>er_\<close> EventResult, \<open>ls_\<close> LsResult,
  \<open>p_\<close> Process).
\<close>

record Request =
  req_JSONRPC :: string
  req_Method :: string
  req_ID :: goint
  req_Params :: "any list"

record ('t, 'q) Response =
  resp_ID :: goint
  resp_Result :: 't
  resp_Error :: 'q

record APIError =
  api_Code :: goint
  api_Message :: string

record decResp =
  dec_Method :: string
  dec_ID :: goint
  dec_Subscription :: string

record EventResult =
  er_Type :: string
  er_Line :: string
  er_Timestamp :: "64 word"
  er_IsDirectory :: bool
  er_Error :: string

record EventParams =
  ep_Subscription :: string
  ep_Result :: EventResult

record Event =
  ev_Path :: string
  ev_Name :: string
  ev_Timestamp :: "64 word"
  ev_Error :: string
  ev_Params :: EventParams

record LsResult =
  ls_Name :: string
  ls_IsDir :: bool

record Process =
  p_id :: string
  p_cmd :: string
  p_Cwd :: string
  p_Env :: "(string \<times> string) list option"

definition rpc :: string where "rpc = ''2.0''"
definition filesystemWrite :: string where "filesystemWrite = ''filesystem_write''"
definition filesystemRead :: string where "filesystemRead = ''filesystem_read''"
definition filesystemList :: string where "filesystemList = ''filesystem_list''"
definition filesystemMakeDir :: string where "filesystemMakeDir = ''filesystem_makeDir''"
definition filesystemSubscribe :: string where "filesystemSubscribe = ''filesystem_subscribe''"
definition processSubscribe :: string where "processSubscribe = ''process_subscribe''"
definition processUnsubscribe :: string where "processUnsubscribe = ''process_unsubscribe''"
definition notebookExecCell :: string where "notebookExecCell = ''notebook_execCell''"

text \<open>
  \<open>encoding/json\<close> is a library outside the repository, so its two functions are
  parameters of the model. \<open>json.Unmarshal(body, &v)\<close> on a fresh \<open>v\<close> is a function
  from the bytes to what \<open>v\<close> holds afterwards and the error returned (\<open>None\<close> is \<open>nil\<close>);
  \<open>json.Marshal\<close> likewise returns the bytes and the error.
\<close>

type_synonym 'a unmarshal = "bytes \<Rightarrow> 'a \<times> error option"
type_synonym 'a marshal = "'a \<Rightarrow> bytes \<times> error option"

definition decodeResponse ::
  "('t, 'q) Response unmarshal \<Rightarrow> bytes \<Rightarrow> error + ('t, 'q) Response" where
  "decodeResponse unmarshal body =
     (case unmarshal body of
        (decResp, Some err) \<Rightarrow> Inl err
      | (decResp, None) \<Rightarrow> Inr decResp)"

section \<open>Channels, the routing map and the shared state\<close>

text \<open>
  An unbuffered channel, seen from its single receiver. \<open>NoReceiver\<close>: open, nobody is
  receiving, a send blocks. \<open>Receiving\<close>: a goroutine is parked in a receive (or in a
  \<open>select\<close> with a receive case). \<open>Handed v\<close>: a send of \<open>v\<close> has completed against that
  parked receive, and the receiver has not run yet. \<open>Closed\<close>: a send panics, a
  receive yields the zero value at once.
\<close>

datatype 'a chan_state = NoReceiver | Receiving | Handed 'a | Closed

datatype send_result = Sent | SendBlocks | SendPanics

definition chan_send :: "'a \<Rightarrow> 'a chan_state \<Rightarrow> send_result \<times> 'a chan_state" where
  "chan_send v st =
     (case st of
        Receiving \<Rightarrow> (Sent, Handed v)
      | Closed \<Rightarrow> (SendPanics, Closed)
      | NoReceiver \<Rightarrow> (SendBlocks, NoReceiver)
      | Handed w \<Rightarrow> (SendBlocks, Handed w))"

text \<open>A plain receive \<open><-ch\<close>: \<open>None\<close> when it has to park.\<close>

definition chan_recv :: "'a \<Rightarrow> 'a chan_state \<Rightarrow> 'a option \<times> 'a chan_state" where
  "chan_recv zero st =
     (case st of
        Handed v \<Rightarrow> (Some v, NoReceiver)
      | Closed \<Rightarrow> (Some zero, Closed)
      | NoReceiver \<Rightarrow> (None, Receiving)
      | Receiving \<Rightarrow> (None, Receiving))"

text \<open>
  The \<open>select\<close> of the one-shot calls: a receive from \<open>respCh\<close> against \<open>ctx.Done()\<close>.
  \<open>ctx\<close> is \<open>ctx.Err()\<close> at that moment (\<open>None\<close>: not done). When both cases are ready
  Go picks one at random: \<open>pick\<close> says whether it is the \<open>ctx.Done()\<close> case. A value
  already handed over means the receive case has been taken.
\<close>

datatype 'a selected = Received 'a | CtxDone error | Parks

definition select_recv_ctx ::
  "'a \<Rightarrow> 'a chan_state \<Rightarrow> error option \<Rightarrow> bool \<Rightarrow> 'a selected \<times> 'a chan_state" where
  "select_recv_ctx zero st ctx pick =
     (case st of
        Handed v \<Rightarrow> (Received v, NoReceiver)
      | Closed \<Rightarrow>
          (case ctx of
             Some e \<Rightarrow> if pick then (CtxDone e, Closed) else (Received zero, Closed)
           | None \<Rightarrow> (Received zero, Closed))
      | NoReceiver \<Rightarrow>
          (case ctx of Some e \<Rightarrow> (CtxDone e, NoReceiver) | None \<Rightarrow> (Parks, Receiving))
      | Receiving \<Rightarrow>
          (case ctx of Some e \<Rightarrow> (CtxDone e, NoReceiver) | None \<Rightarrow> (Parks, Receiving)))"

text \<open>
  The keys and values of \<open>Sandbox.Map\<close> (a \<open>sync.Map\<close>, so both are \<open>any\<close>). The keys the
  code stores are \<open>int\<close> request ids and \<open>string\<close> tokens; a value carries its dynamic
  type: \<open>chan []byte\<close>, \<open>chan<- Event\<close>, or the \<open><-chan struct{}\<close> that \<open>Done\<close> asserts.
\<close>

datatype key = IntKey goint | StringKey string

datatype any_chan = ChanBytes nat | ChanEvent nat | ChanStruct nat

text \<open>
  The state the goroutines share: the fields of \<open>Sandbox\<close> the transport uses
  (\<open>Cwd\<close>, \<open>Map\<close>, \<open>idCh\<close>, and the websocket \<open>ws\<close> as what it will deliver, what was
  written to it, the error its writes return and whether it was closed), the
  governing context given to \<open>NewSandbox\<close>, and the channels made so far, by element
  type. \<open>idCh\<close> holds the value \<open>identify\<close> is parked sending, \<open>None\<close> once it has
  returned.
\<close>

record Sandbox =
  Cwd :: string
  Map :: "key \<Rightarrow> any_chan option"
  idCh :: "goint option"
  ctx_err :: "error option"
  ws_in :: "(error + bytes) list"
  ws_out :: "bytes list"
  ws_write_err :: "error option"
  ws_closed :: bool
  bchans :: "nat \<Rightarrow> bytes chan_state"
  echans :: "nat \<Rightarrow> Event chan_state"
  errchans :: "nat \<Rightarrow> error chan_state"
  dchans :: "nat \<Rightarrow> unit chan_state"
  next_chan :: nat

text \<open>
  How a call ends: it returns, it blocks (parked, or forever), or it panics. Nothing
  recovers a panic, so it ends the program and the state is left as the panicking
  statement found it.
\<close>

datatype 'a outcome = Ret 'a | Blocks | Panics

text \<open>One iteration of a loop: go round again, or leave the loop.\<close>

datatype 'a step = Continue | Stop "'a outcome"

definition make_chan :: "Sandbox \<Rightarrow> nat \<times> Sandbox" where
  "make_chan s =
     (next_chan s,
      s\<lparr>next_chan := Suc (next_chan s),
        bchans := (bchans s)(next_chan s := NoReceiver),
        echans := (echans s)(next_chan s := NoReceiver),
        errchans := (errchans s)(next_chan s := NoReceiver),
        dchans := (dchans s)(next_chan s := NoReceiver)\<rparr>)"

definition close_bchan :: "nat \<Rightarrow> Sandbox \<Rightarrow> Sandbox" where
  "close_bchan c s = s\<lparr>bchans := (bchans s)(c := Closed)\<rparr>"

section \<open>The id allocator: \<open>identify\<close>\<close>

text \<open>
  \<open>identify\<close> keeps a local counter starting at 1. Each iteration of its loop looks at
  the context: when it is done the goroutine returns, otherwise it sends the counter on
  the unbuffered channel \<open>idCh\<close> (one receiver takes it) and increments it.
  \<open>identify_iter\<close> is the \<open>select\<close> of one iteration: the value about to be sent, if any.
  \<open>identify_loop\<close> runs one iteration per observation of the context and lists the
  values sent, in order.
\<close>

definition identify_iter :: "bool \<Rightarrow> goint \<Rightarrow> goint option" where
  "identify_iter ctx_done cur = (if ctx_done then None else Some cur)"

fun identify_loop :: "bool list \<Rightarrow> goint \<Rightarrow> goint list" where
  "identify_loop [] cur = []"
| "identify_loop (d # ds) cur =
     (case identify_iter d cur of
        None \<Rightarrow> []
      | Some v \<Rightarrow> v # identify_loop ds (cur + 1))"

definition identify :: "bool list \<Rightarrow> goint list" where
  "identify ds = identify_loop ds 1"


text \<open>
  The state after \<open>NewSandbox\<close> (or \<open>ConnectSandbox\<close>) has dialled the websocket and
  started \<open>identify\<close> and \<open>read\<close>: an empty map, the allocator parked sending 1 unless
  the context is already done. The HTTP exchange before it is outside the model.
\<close>

definition NewSandbox :: "string \<Rightarrow> error option \<Rightarrow> (error + bytes) list \<Rightarrow> Sandbox" where
  "NewSandbox cwd ctx inbound =
     \<lparr>Cwd = cwd, Map = (\<lambda>k. None), idCh = identify_iter (ctx \<noteq> None) 1, ctx_err = ctx,
      ws_in = inbound, ws_out = [], ws_write_err = None, ws_closed = False,
      bchans = (\<lambda>c. NoReceiver), echans = (\<lambda>c. NoReceiver),
      errchans = (\<lambda>c. NoReceiver), dchans = (\<lambda>c. NoReceiver), next_chan = 0\<rparr>"

section \<open>The write path: \<open>writeRequest\<close>\<close>

text \<open>
  The \<open>select\<close> takes the \<open>ctx.Done()\<close> case when the caller's context is done and
  either no id is on offer or the runtime picks that case; it takes the id when one is
  on offer; otherwise the call blocks. Taking the id lets \<open>identify\<close> increment and go
  round its loop. The channel is stored under the id before the request is marshalled
  and written.
\<close>

definition writeRequest ::
  "Request marshal \<Rightarrow> error option \<Rightarrow> bool \<Rightarrow> string \<Rightarrow> any list \<Rightarrow> nat \<Rightarrow> Sandbox
     \<Rightarrow> error option outcome \<times> Sandbox" where
  "writeRequest marshal ctx pick method params respCh s =
     (if ctx \<noteq> None \<and> (idCh s = None \<or> pick) then (Ret ctx, s)
      else case idCh s of
        None \<Rightarrow> (Blocks, s)
      | Some i \<Rightarrow>
          let s1 = s\<lparr>idCh := identify_iter (ctx_err s \<noteq> None) (i + 1)\<rparr>;
              req = \<lparr>req_JSONRPC = rpc, req_Method = method, req_ID = i, req_Params = params\<rparr>;
              s2 = s1\<lparr>Map := (Map s1)(IntKey (req_ID req) \<mapsto> ChanBytes respCh)\<rparr>
          in case marshal req of
               (jsVal, Some err) \<Rightarrow> (Ret (Some err), s2)
             | (jsVal, None) \<Rightarrow>
                 (case ws_write_err s2 of
                    Some err \<Rightarrow> (Ret (Some (WriteRequestFailed method (req_ID req) err)), s2)
                  | None \<Rightarrow> (Ret None, s2\<lparr>ws_out := ws_out s2 @ [jsVal]\<rparr>)))"

section \<open>The dispatcher: \<open>read\<close>\<close>

text \<open>
  The loop state is the local buffered channel \<open>msgCh\<close> (capacity 10) and the shared
  state. The \<open>default\<close> case runs only when \<open>msgCh\<close> is empty and the context is not
  done, and a requeue follows a receive from \<open>msgCh\<close>, so neither send on \<open>msgCh\<close> finds
  the buffer full. Leaving the function runs the deferred \<open>s.ws.Close()\<close>.
\<close>

text \<open>
  The key of a decoded frame: \<open>key = decResp.Params.Subscription\<close>, replaced by
  \<open>decResp.ID\<close> when that is not 0.
\<close>

definition frame_key :: "decResp \<Rightarrow> key" where
  "frame_key decResp =
     (if dec_ID decResp \<noteq> 0 then IntKey (dec_ID decResp)
      else StringKey (dec_Subscription decResp))"

definition read_dispatch ::
  "decResp unmarshal \<Rightarrow> bytes \<Rightarrow> bytes list \<Rightarrow> Sandbox \<Rightarrow> error step \<times> bytes list \<times> Sandbox" where
  "read_dispatch unmarshal body msgCh s =
     (case unmarshal body of
        (decResp, Some err) \<Rightarrow> (Stop (Ret err), msgCh, s\<lparr>ws_closed := True\<rparr>)
      | (decResp, None) \<Rightarrow>
          let key = frame_key decResp
          in case Map s key of
               None \<Rightarrow> (Continue, msgCh @ [body], s)
             | Some (ChanBytes toRCh) \<Rightarrow>
                 (case chan_send body (bchans s toRCh) of
                    (Sent, st) \<Rightarrow> (Continue, msgCh, s\<lparr>bchans := (bchans s)(toRCh := st)\<rparr>)
                  | (SendBlocks, st) \<Rightarrow> (Stop Blocks, body # msgCh, s)
                  | (SendPanics, st) \<Rightarrow> (Stop Panics, msgCh, s))
             | Some (ChanEvent c) \<Rightarrow> (Continue, msgCh @ [body], s)
             | Some (ChanStruct c) \<Rightarrow> (Continue, msgCh @ [body], s))"

definition read_default :: "Sandbox \<Rightarrow> error step \<times> bytes list \<times> Sandbox" where
  "read_default s =
     (case ws_in s of
        [] \<Rightarrow> (Stop Blocks, [], s)
      | Inl err # later \<Rightarrow> (Stop (Ret err), [], s\<lparr>ws_in := later, ws_closed := True\<rparr>)
      | Inr msg # later \<Rightarrow> (Continue, [msg], s\<lparr>ws_in := later\<rparr>))"

definition read_iter ::
  "decResp unmarshal \<Rightarrow> bool \<Rightarrow> bytes list \<times> Sandbox \<Rightarrow> error step \<times> bytes list \<times> Sandbox" where
  "read_iter unmarshal pick st =
     (case st of (msgCh, s) \<Rightarrow>
        (case (msgCh, ctx_err s) of
           ([], None) \<Rightarrow> read_default s
         | ([], Some e) \<Rightarrow> (Stop (Ret e), [], s\<lparr>ws_closed := True\<rparr>)
         | (body # rest, None) \<Rightarrow> read_dispatch unmarshal body rest s
         | (body # rest, Some e) \<Rightarrow>
             if pick then (Stop (Ret e), msgCh, s\<lparr>ws_closed := True\<rparr>)
             else read_dispatch unmarshal body rest s))"

text \<open>
  The loop, one iteration per element of the schedule (the runtime's pick at that
  iteration). \<open>Continue\<close> as the result says the loop is still running when the schedule
  ends.
\<close>

fun read_loop ::
  "decResp unmarshal \<Rightarrow> bool list \<Rightarrow> bytes list \<times> Sandbox \<Rightarrow> error step \<times> bytes list \<times> Sandbox" where
  "read_loop unmarshal [] st = (Continue, st)"
| "read_loop unmarshal (pick # picks) st =
     (case read_iter unmarshal pick st of
        (Continue, st') \<Rightarrow> read_loop unmarshal picks st'
      | (Stop r, st') \<Rightarrow> (Stop r, st'))"

section \<open>The one-shot calls\<close>

text \<open>
  Each call makes its channel, calls \<open>writeRequest\<close> and waits in a \<open>select\<close> on the
  channel and the caller's context. \<open>await\<close> is that \<open>select\<close>; a call that parks there
  is resumed by its \<open>_select\<close> function, which is the \<open>select\<close> statement with its
  branches. \<open>Ls\<close> closes its channel when it returns (\<open>defer close(respCh)\<close>); the other
  calls modelled here do not.
\<close>

definition await :: "error option \<Rightarrow> bool \<Rightarrow> nat \<Rightarrow> Sandbox \<Rightarrow> bytes selected \<times> Sandbox" where
  "await ctx pick respCh s =
     (case select_recv_ctx [] (bchans s respCh) ctx pick of
        (r, st) \<Rightarrow> (r, s\<lparr>bchans := (bchans s)(respCh := st)\<rparr>))"

definition Mkdir_select ::
  "(string, APIError) Response unmarshal \<Rightarrow> error option \<Rightarrow> bool \<Rightarrow> nat \<Rightarrow> Sandbox
     \<Rightarrow> error option outcome \<times> Sandbox" where
  "Mkdir_select unmarshal ctx pick respCh s =
     (case await ctx pick respCh s of
        (Parks, s') \<Rightarrow> (Blocks, s')
      | (CtxDone e, s') \<Rightarrow> (Ret (Some e), s')
      | (Received body, s') \<Rightarrow>
          (case decodeResponse unmarshal body of
             Inl err \<Rightarrow> (Ret (Some (MkdirDecodeFailed err)), s')
           | Inr resp \<Rightarrow>
               if api_Code (resp_Error resp) \<noteq> 0
               then (Ret (Some (MkdirFailed (api_Message (resp_Error resp)))), s')
               else (Ret None, s')))"

definition Mkdir ::
  "Request marshal \<Rightarrow> (string, APIError) Response unmarshal \<Rightarrow> error option \<Rightarrow> bool \<Rightarrow> string
     \<Rightarrow> Sandbox \<Rightarrow> error option outcome \<times> Sandbox" where
  "Mkdir marshal unmarshal ctx pick path s =
     (case make_chan s of (respCh, s1) \<Rightarrow>
        (case writeRequest marshal ctx pick filesystemMakeDir [AString path] respCh s1 of
           (Ret (Some err), s2) \<Rightarrow> (Ret (Some err), s2)
         | (Ret None, s2) \<Rightarrow> Mkdir_select unmarshal ctx pick respCh s2
         | (Blocks, s2) \<Rightarrow> (Blocks, s2)
         | (Panics, s2) \<Rightarrow> (Panics, s2)))"

definition Ls_select ::
  "(LsResult list, string) Response unmarshal \<Rightarrow> error option \<Rightarrow> bool \<Rightarrow> nat \<Rightarrow> Sandbox
     \<Rightarrow> (error + LsResult list) outcome \<times> Sandbox" where
  "Ls_select unmarshal ctx pick respCh s =
     (case await ctx pick respCh s of
        (Parks, s') \<Rightarrow> (Blocks, s')
      | (CtxDone e, s') \<Rightarrow> (Ret (Inl e), close_bchan respCh s')
      | (Received body, s') \<Rightarrow>
          (case decodeResponse unmarshal body of
             Inl err \<Rightarrow> (Ret (Inl err), close_bchan respCh s')
           | Inr res \<Rightarrow> (Ret (Inr (resp_Result res)), close_bchan respCh s')))"

definition Ls ::
  "Request marshal \<Rightarrow> (LsResult list, string) Response unmarshal \<Rightarrow> error option \<Rightarrow> bool \<Rightarrow> string
     \<Rightarrow> Sandbox \<Rightarrow> (error + LsResult list) outcome \<times> Sandbox" where
  "Ls marshal unmarshal ctx pick path s =
     (case make_chan s of (respCh, s1) \<Rightarrow>
        (case writeRequest marshal ctx pick filesystemList [AString path] respCh s1 of
           (Ret (Some err), s2) \<Rightarrow> (Ret (Inl err), close_bchan respCh s2)
         | (Ret None, s2) \<Rightarrow> Ls_select unmarshal ctx pick respCh s2
         | (Blocks, s2) \<Rightarrow> (Blocks, s2)
         | (Panics, s2) \<Rightarrow> (Panics, s2)))"

definition Read_select ::
  "(string, string) Response unmarshal \<Rightarrow> error option \<Rightarrow> bool \<Rightarrow> nat \<Rightarrow> Sandbox
     \<Rightarrow> (error + string) outcome \<times> Sandbox" where
  "Read_select unmarshal ctx pick respCh s =
     (case await ctx pick respCh s of
        (Parks, s') \<Rightarrow> (Blocks, s')
      | (CtxDone e, s') \<Rightarrow> (Ret (Inl e), s')
      | (Received body, s') \<Rightarrow>
          (case decodeResponse unmarshal body of
             Inl err \<Rightarrow> (Ret (Inl err), s')
           | Inr res \<Rightarrow>
               if resp_Error res \<noteq> []
               then (Ret (Inl (ReadFailed (resp_Error res))), s')
               else (Ret (Inr (resp_Result res)), s')))"

definition Read ::
  "Request marshal \<Rightarrow> (string, string) Response unmarshal \<Rightarrow> error option \<Rightarrow> bool \<Rightarrow> string
     \<Rightarrow> Sandbox \<Rightarrow> (error + string) outcome \<times> Sandbox" where
  "Read marshal unmarshal ctx pick path s =
     (case make_chan s of (respCh, s1) \<Rightarrow>
        (case writeRequest marshal ctx pick filesystemRead [AString path] respCh s1 of
           (Ret (Some err), s2) \<Rightarrow> (Ret (Inl err), s2)
         | (Ret None, s2) \<Rightarrow> Read_select unmarshal ctx pick respCh s2
         | (Blocks, s2) \<Rightarrow> (Blocks, s2)
         | (Panics, s2) \<Rightarrow> (Panics, s2)))"

text \<open>
  \<open>Write\<close> unmarshals the reply into a fresh \<open>Request\<close> and looks only at the error
  \<open>json.Unmarshal\<close> returns.
\<close>

definition Write_select ::
  "Request unmarshal \<Rightarrow> error option \<Rightarrow> bool \<Rightarrow> nat \<Rightarrow> Sandbox
     \<Rightarrow> error option outcome \<times> Sandbox" where
  "Write_select unmarshal ctx pick respCh s =
     (case await ctx pick respCh s of
        (Parks, s') \<Rightarrow> (Blocks, s')
      | (CtxDone e, s') \<Rightarrow> (Ret (Some e), s')
      | (Received resp, s') \<Rightarrow>
          (case unmarshal resp of
             (req, Some err) \<Rightarrow> (Ret (Some err), s')
           | (req, None) \<Rightarrow> (Ret None, s')))"

definition Write ::
  "Request marshal \<Rightarrow> Request unmarshal \<Rightarrow> error option \<Rightarrow> bool \<Rightarrow> string \<Rightarrow> bytes
     \<Rightarrow> Sandbox \<Rightarrow> error option outcome \<times> Sandbox" where
  "Write marshal unmarshal ctx pick path data s =
     (case make_chan s of (respCh, s1) \<Rightarrow>
        (case writeRequest marshal ctx pick filesystemWrite [AString path, AString data] respCh s1 of
           (Ret (Some err), s2) \<Rightarrow> (Ret (Some err), s2)
         | (Ret None, s2) \<Rightarrow> Write_select unmarshal ctx pick respCh s2
         | (Blocks, s2) \<Rightarrow> (Blocks, s2)
         | (Panics, s2) \<Rightarrow> (Panics, s2)))"

text \<open>\<open>ExecCell\<close>; the \<open>Execution\<close> payload is left a type parameter.\<close>

definition ExecCell_select ::
  "('e, APIError) Response unmarshal \<Rightarrow> error option \<Rightarrow> bool \<Rightarrow> nat \<Rightarrow> Sandbox
     \<Rightarrow> (error + 'e) outcome \<times> Sandbox" where
  "ExecCell_select unmarshal ctx pick respCh s =
     (case await ctx pick respCh s of
        (Parks, s') \<Rightarrow> (Blocks, s')
      | (CtxDone e, s') \<Rightarrow> (Ret (Inl e), s')
      | (Received body, s') \<Rightarrow>
          (case decodeResponse unmarshal body of
             Inl err \<Rightarrow> (Ret (Inl err), s')
           | Inr res \<Rightarrow>
               if api_Code (resp_Error res) \<noteq> 0
               then (Ret (Inl (NotebookExecFailed (api_Code (resp_Error res))
                                  (api_Message (resp_Error res)))), s')
               else (Ret (Inr (resp_Result res)), s')))"

definition ExecCell ::
  "Request marshal \<Rightarrow> ('e, APIError) Response unmarshal \<Rightarrow> error option \<Rightarrow> bool \<Rightarrow> string
     \<Rightarrow> Sandbox \<Rightarrow> (error + 'e) outcome \<times> Sandbox" where
  "ExecCell marshal unmarshal ctx pick code s =
     (case make_chan s of (respCh, s1) \<Rightarrow>
        (case writeRequest marshal ctx pick notebookExecCell [AString code] respCh s1 of
           (Ret (Some err), s2) \<Rightarrow> (Ret (Inl err), s2)
         | (Ret None, s2) \<Rightarrow> ExecCell_select unmarshal ctx pick respCh s2
         | (Blocks, s2) \<Rightarrow> (Blocks, s2)
         | (Panics, s2) \<Rightarrow> (Panics, s2)))"

section \<open>Processes\<close>



definition Start_select ::
  "(string, APIError) Response unmarshal \<Rightarrow> error option \<Rightarrow> bool \<Rightarrow> Process \<Rightarrow> nat \<Rightarrow> Sandbox
     \<Rightarrow> error option outcome \<times> Sandbox" where
  "Start_select unmarshal ctx pick p respCh s =
     (case await ctx pick respCh s of
        (Parks, s') \<Rightarrow> (Blocks, s')
      | (CtxDone e, s') \<Rightarrow> (Ret (Some e), s')
      | (Received body, s') \<Rightarrow>
          (case decodeResponse unmarshal body of
             Inl err \<Rightarrow> (Ret (Some err), s')
           | Inr res \<Rightarrow>
               if api_Code (resp_Error res) \<noteq> 0
               then (Ret (Some (ProcessStartFailed (api_Code (resp_Error res))
                                   (api_Message (resp_Error res)))), s')
               else if resp_Result res = [] \<or> length (resp_Result res) = 0
               then (Ret (Some ProcessStartEmptyResult), s')
               else if p_id p \<noteq> resp_Result res
               then (Ret (Some (ProcessStartWrongId (p_id p) (resp_Result res))), s')
               else (Ret None, s')))"


text \<open>
  \<open>Done\<close> loads the map at the process id, a string. A missing entry gives the nil
  channel (\<open>None\<close>); a value that is not a \<open><-chan struct{}\<close> makes the unchecked type
  assertion panic.
\<close>

definition Done :: "Process \<Rightarrow> Sandbox \<Rightarrow> nat option outcome" where
  "Done p s =
     (case Map s (StringKey (p_id p)) of
        None \<Rightarrow> Ret None
      | Some (ChanStruct rCh) \<Rightarrow> Ret (Some rCh)
      | Some (ChanBytes c) \<Rightarrow> Panics
      | Some (ChanEvent c) \<Rightarrow> Panics)"

section \<open>Subscriptions: \<open>Watch\<close> and \<open>subscribe\<close>\<close>

text \<open>
  \<open>Watch\<close> up to its return. After \<open>writeRequest\<close> it receives the acknowledgment with
  a plain receive, stores the caller's event channel (a \<open>chan<- Event\<close>) under the
  token of the acknowledgment, starts the consumer goroutine and returns; the deferred
  \<open>close(respCh)\<close> runs on every return.
\<close>

definition Watch_ack ::
  "(string, string) Response unmarshal \<Rightarrow> nat \<Rightarrow> nat \<Rightarrow> Sandbox \<Rightarrow> error option outcome \<times> Sandbox" where
  "Watch_ack unmarshal eCh respCh s =
     (case chan_recv [] (bchans s respCh) of
        (None, st) \<Rightarrow> (Blocks, s\<lparr>bchans := (bchans s)(respCh := st)\<rparr>)
      | (Some body, st) \<Rightarrow>
          let s1 = s\<lparr>bchans := (bchans s)(respCh := st)\<rparr>
          in case decodeResponse unmarshal body of
               Inl err \<Rightarrow> (Ret (Some err), close_bchan respCh s1)
             | Inr res \<Rightarrow>
                 (Ret None,
                  close_bchan respCh
                    (s1\<lparr>Map := (Map s1)(StringKey (resp_Result res) \<mapsto> ChanEvent eCh)\<rparr>)))"

definition Watch ::
  "Request marshal \<Rightarrow> (string, string) Response unmarshal \<Rightarrow> error option \<Rightarrow> bool \<Rightarrow> string \<Rightarrow> nat
     \<Rightarrow> Sandbox \<Rightarrow> error option outcome \<times> Sandbox" where
  "Watch marshal unmarshal ctx pick path eCh s =
     (case make_chan s of (respCh, s1) \<Rightarrow>
        (case writeRequest marshal ctx pick filesystemSubscribe
                [AString ''watchDir'', AString path] respCh s1 of
           (Ret (Some err), s2) \<Rightarrow> (Ret (Some err), close_bchan respCh s2)
         | (Ret None, s2) \<Rightarrow> Watch_ack unmarshal eCh respCh s2
         | (Blocks, s2) \<Rightarrow> (Blocks, s2)
         | (Panics, s2) \<Rightarrow> (Panics, s2)))"

text \<open>
  One iteration of the goroutine \<open>Watch\<close> starts. Its \<open>select\<close> has a \<open>default\<close>, so the
  \<open>ctx.Done()\<close> case runs whenever the context is done. The goroutine only returns: it
  writes no request and closes no channel.
\<close>

definition Watch_consumer ::
  "Event unmarshal \<Rightarrow> error option \<Rightarrow> string \<Rightarrow> nat \<Rightarrow> nat \<Rightarrow> Sandbox \<Rightarrow> unit step \<times> Sandbox" where
  "Watch_consumer unmarshal ctx path eCh respCh s =
     (case ctx of
        Some e \<Rightarrow> (Stop (Ret ()), s)
      | None \<Rightarrow>
          (case chan_recv [] (bchans s respCh) of
             (None, st) \<Rightarrow> (Stop Blocks, s\<lparr>bchans := (bchans s)(respCh := st)\<rparr>)
           | (Some body, st) \<Rightarrow>
               let s1 = s\<lparr>bchans := (bchans s)(respCh := st)\<rparr>
               in case unmarshal body of
                    (event, Some err) \<Rightarrow> (Stop (Ret ()), s1)
                  | (event, None) \<Rightarrow>
                      if ev_Error event \<noteq> [] then (Stop (Ret ()), s1)
                      else if ep_Subscription (ev_Params event) \<noteq> path then (Continue, s1)
                      else (case chan_send event (echans s1 eCh) of
                              (Sent, st') \<Rightarrow> (Continue, s1\<lparr>echans := (echans s1)(eCh := st')\<rparr>)
                            | (SendBlocks, st') \<Rightarrow> (Stop Blocks, s1)
                            | (SendPanics, st') \<Rightarrow> (Stop Panics, s1))))"

text \<open>
  \<open>subscribe\<close> makes the two channels it returns and starts a goroutine, modelled in
  its parts: the subscribe request, the acknowledgment, one iteration of the event
  loop, and what follows the loop. After an error the goroutine sends it on \<open>errCh\<close> and
  carries on; a failed decode leaves \<open>res\<close> nil, so \<open>res.Result\<close> panics.
\<close>

definition subscribe :: "Sandbox \<Rightarrow> (nat \<times> nat) \<times> Sandbox" where
  "subscribe s =
     (case make_chan s of (events, s1) \<Rightarrow>
        (case make_chan s1 of (errs, s2) \<Rightarrow> ((events, errs), s2)))"

definition subscribe_request ::
  "Request marshal \<Rightarrow> error option \<Rightarrow> bool \<Rightarrow> string \<Rightarrow> Process \<Rightarrow> nat \<Rightarrow> Sandbox
     \<Rightarrow> nat outcome \<times> Sandbox" where
  "subscribe_request marshal ctx pick event p errCh s =
     (case make_chan s of (respCh, s1) \<Rightarrow>
        (case writeRequest marshal ctx pick processSubscribe
                [AString event, AString (p_id p)] respCh s1 of
           (Ret None, s2) \<Rightarrow> (Ret respCh, s2)
         | (Ret (Some err), s2) \<Rightarrow>
             (case chan_send err (errchans s2 errCh) of
                (Sent, st) \<Rightarrow> (Ret respCh, s2\<lparr>errchans := (errchans s2)(errCh := st)\<rparr>)
              | (SendBlocks, st) \<Rightarrow> (Blocks, s2)
              | (SendPanics, st) \<Rightarrow> (Panics, s2))
         | (Blocks, s2) \<Rightarrow> (Blocks, s2)
         | (Panics, s2) \<Rightarrow> (Panics, s2)))"

definition subscribe_ack ::
  "(string, 'q) Response unmarshal \<Rightarrow> nat \<Rightarrow> nat \<Rightarrow> Sandbox \<Rightarrow> string outcome \<times> Sandbox" where
  "subscribe_ack unmarshal errCh respCh s =
     (case chan_recv [] (bchans s respCh) of
        (None, st) \<Rightarrow> (Blocks, s\<lparr>bchans := (bchans s)(respCh := st)\<rparr>)
      | (Some body, st) \<Rightarrow>
          let s1 = s\<lparr>bchans := (bchans s)(respCh := st)\<rparr>
          in case decodeResponse unmarshal body of
               Inl err \<Rightarrow>
                 (case chan_send err (errchans s1 errCh) of
                    (Sent, st') \<Rightarrow> (Panics, s1\<lparr>errchans := (errchans s1)(errCh := st')\<rparr>)
                  | (SendBlocks, st') \<Rightarrow> (Blocks, s1)
                  | (SendPanics, st') \<Rightarrow> (Panics, s1))
             | Inr res \<Rightarrow>
                 (Ret (resp_Result res),
                  s1\<lparr>Map := (Map s1)(StringKey (resp_Result res) \<mapsto> ChanBytes respCh)\<rparr>))"

text \<open>
  The event loop's \<open>select\<close> has three cases: a receive from \<open>respCh\<close>, \<open>ctx.Done()\<close> and
  a receive from \<open>p.Done()\<close>. \<open>pick\<close> is the case the runtime takes when it is ready;
  otherwise the first ready case in source order stands for the runtime's choice. A
  receive from the nil channel is never ready; a receive from a non-nil \<open>Done\<close> channel
  is ready once that channel is closed.
\<close>

datatype choice3 = PickRecv | PickCtx | PickDone

definition select3 :: "choice3 \<Rightarrow> bool \<Rightarrow> bool \<Rightarrow> bool \<Rightarrow> choice3 option" where
  "select3 pick recv_ready ctx_ready done_ready =
     (if (case pick of PickRecv \<Rightarrow> recv_ready | PickCtx \<Rightarrow> ctx_ready | PickDone \<Rightarrow> done_ready)
      then Some pick
      else if recv_ready then Some PickRecv
      else if ctx_ready then Some PickCtx
      else if done_ready then Some PickDone
      else None)"

text \<open>The body of the receive case. The error of \<open>json.Unmarshal\<close> is dropped.\<close>

definition subscribe_event ::
  "Event unmarshal \<Rightarrow> nat \<Rightarrow> bytes \<Rightarrow> Sandbox \<Rightarrow> unit step \<times> Sandbox" where
  "subscribe_event unmarshal events eventBd s =
     (case unmarshal eventBd of (event, err) \<Rightarrow>
        if ev_Error event \<noteq> [] then (Continue, s)
        else (case chan_send event (echans s events) of
                (Sent, st) \<Rightarrow> (Continue, s\<lparr>echans := (echans s)(events := st)\<rparr>)
              | (SendBlocks, st) \<Rightarrow> (Stop Blocks, s)
              | (SendPanics, st) \<Rightarrow> (Stop Panics, s)))"

definition subscribe_loop_iter ::
  "Event unmarshal \<Rightarrow> error option \<Rightarrow> choice3 \<Rightarrow> Process \<Rightarrow> nat \<Rightarrow> nat \<Rightarrow> Sandbox
     \<Rightarrow> unit step \<times> Sandbox" where
  "subscribe_loop_iter unmarshal ctx pick p events respCh s =
     (case Done p s of
        Panics \<Rightarrow> (Stop Panics, s)
      | Blocks \<Rightarrow> (Stop Blocks, s)
      | Ret done \<Rightarrow>
          (case bchans s respCh of
             Handed eventBd \<Rightarrow>
               subscribe_event unmarshal events eventBd
                 (s\<lparr>bchans := (bchans s)(respCh := NoReceiver)\<rparr>)
           | st \<Rightarrow>
               (case select3 pick (st = Closed) (ctx \<noteq> None)
                       (case done of None \<Rightarrow> False | Some c \<Rightarrow> dchans s c = Closed) of
                  None \<Rightarrow> (Stop Blocks, s\<lparr>bchans := (bchans s)(respCh := Receiving)\<rparr>)
                | Some PickRecv \<Rightarrow> subscribe_event unmarshal events [] s
                | Some PickCtx \<Rightarrow>
                    (Stop (Ret ()),
                     if st = Closed then s else s\<lparr>bchans := (bchans s)(respCh := NoReceiver)\<rparr>)
                | Some PickDone \<Rightarrow>
                    (Stop (Ret ()),
                     if st = Closed then s else s\<lparr>bchans := (bchans s)(respCh := NoReceiver)\<rparr>))))"

text \<open>
  After the loop: the token's entry is deleted, and the unsubscribe request goes
  through \<open>writeRequest\<close> under \<open>finishCtx\<close>, a new context derived from
  \<open>context.Background()\<close> whose cancel function is only deferred, so it is not done
  (\<open>None\<close>). The error of \<open>writeRequest\<close> is dropped, and the goroutine receives the
  reply with a plain receive. A failed decode leaves \<open>unsubRes\<close> nil, so reading
  \<open>unsubRes.Error\<close> panics. The return runs \<open>close(respCh)\<close>. The channel \<open>events\<close> is
  not touched.
\<close>

definition subscribe_unsub_reply ::
  "(bool, string) Response unmarshal \<Rightarrow> nat \<Rightarrow> Sandbox \<Rightarrow> unit outcome \<times> Sandbox" where
  "subscribe_unsub_reply unmarshal respCh s =
     (case chan_recv [] (bchans s respCh) of
        (None, st) \<Rightarrow> (Blocks, s\<lparr>bchans := (bchans s)(respCh := st)\<rparr>)
      | (Some body, st) \<Rightarrow>
          let s1 = s\<lparr>bchans := (bchans s)(respCh := st)\<rparr>
          in case decodeResponse unmarshal body of
               Inl err \<Rightarrow> (Panics, s1)
             | Inr unsubRes \<Rightarrow> (Ret (), close_bchan respCh s1))"

definition subscribe_finish ::
  "Request marshal \<Rightarrow> (bool, string) Response unmarshal \<Rightarrow> bool \<Rightarrow> string \<Rightarrow> nat \<Rightarrow> Sandbox
     \<Rightarrow> unit outcome \<times> Sandbox" where
  "subscribe_finish marshal unmarshal pick token respCh s =
     (let s1 = s\<lparr>Map := (Map s)(StringKey token := None)\<rparr>;
          finishCtx = None
      in case writeRequest marshal finishCtx pick processUnsubscribe [AString token] respCh s1 of
           (Ret r, s2) \<Rightarrow> subscribe_unsub_reply unmarshal respCh s2
         | (Blocks, s2) \<Rightarrow> (Blocks, s2)
         | (Panics, s2) \<Rightarrow> (Panics, s2))"

section \<open>Properties of the id allocator\<close>

lemma identify_loop_length: "length (identify_loop ds i) \<le> length ds"
  by (induction ds arbitrary: i) (auto simp: identify_iter_def)

lemma identify_loop_nth:
  "k < length (identify_loop ds i) \<Longrightarrow> identify_loop ds i ! k = i + of_nat k"
proof (induction ds arbitrary: i k)
  case Nil
  then show ?case by simp
next
  case (Cons d ds)
  show ?case
  proof (cases d)
    case True
    with Cons.prems show ?thesis by (simp add: identify_iter_def)
  next
    case False
    show ?thesis
    proof (cases k)
      case 0
      with False show ?thesis by (simp add: identify_iter_def)
    next
      case (Suc j)
      with False Cons.prems have "j < length (identify_loop ds (i + 1))"
        by (simp add: identify_iter_def)
      from Cons.IH [OF this] False Suc show ?thesis
        by (simp add: identify_iter_def algebra_simps)
    qed
  qed
qed

lemma identify_loop_live:
  "\<forall>d \<in> set ds. \<not> d \<Longrightarrow> length (identify_loop ds i) = length ds"
  by (induction ds arbitrary: i) (auto simp: identify_iter_def)

lemma sint_goint_of_nat:
  assumes "n < 2 ^ 63"
  shows "sint (of_nat n :: goint) = int n"
proof -
  have "int n < 2 ^ 63" using assms by (simp flip: of_nat_less_iff)
  then have "(int n + 2 ^ 63) mod 2 ^ 64 = int n + 2 ^ 63" by simp
  moreover have "sint (word_of_int (int n) :: goint) = (int n + 2 ^ 63) mod 2 ^ 64 - 2 ^ 63"
    using int_word_sint [of "int n", where 'a = 64] by simp
  moreover have "(of_nat n :: goint) = word_of_int (int n)" by simp
  ultimately show ?thesis by (simp only:)
qed

lemma identify_nth_sint:
  assumes "k < length (identify ds)" and "k < 2 ^ 63 - 1"
  shows "sint (identify ds ! k) = int k + 1"
proof -
  have "identify ds ! k = of_nat (Suc k)"
    using identify_loop_nth [of k ds 1] assms(1) by (simp add: identify_def)
  moreover have "Suc k < 2 ^ 63" using assms(2) by simp
  ultimately show ?thesis using sint_goint_of_nat [of "Suc k"] by simp
qed

text \<open>
  C6 (as the code has it). Among the first \<open>2 ^ 63 - 1\<close> values the allocator hands out,
  the \<open>k\<close>-th (counting from 0) is the integer \<open>k + 1\<close>: it is positive, strictly
  greater (as a signed integer) than every value handed out before it, and different
  from each of them. Every value is sent once on the unbuffered channel, so one
  receiver gets it.
\<close>

theorem identify_fresh_increasing:
  assumes "k < length (identify ds)" and "k < 2 ^ 63 - 1"
  shows "sint (identify ds ! k) = int k + 1
    \<and> 0 <s identify ds ! k
    \<and> (\<forall>j < k. identify ds ! j <s identify ds ! k \<and> identify ds ! j \<noteq> identify ds ! k)"
proof -
  have k: "sint (identify ds ! k) = int k + 1"
    using assms by (rule identify_nth_sint)
  have pos: "0 <s identify ds ! k"
    using k by (simp add: word_sless_alt)
  have prev: "identify ds ! j <s identify ds ! k \<and> identify ds ! j \<noteq> identify ds ! k"
    if "j < k" for j
  proof -
    have "sint (identify ds ! j) = int j + 1"
      using that assms by (intro identify_nth_sint) simp_all
    with k that have "identify ds ! j <s identify ds ! k"
      by (simp add: word_sless_alt)
    then show ?thesis by (auto simp: word_sless_alt)
  qed
  from k pos prev show ?thesis by blast
qed

text \<open>
  The first three values handed out are 1, 2 and 3.
\<close>

theorem identify_fresh_increasing_witness:
  "identify [False, False, False] = [1, 2, 3]
    \<and> sint (identify [False, False, False] ! 2) = 3
    \<and> 0 <s identify [False, False, False] ! 2
    \<and> identify [False, False, False] ! 1 <s identify [False, False, False] ! 2
    \<and> identify [False, False, False] ! 1 \<noteq> identify [False, False, False] ! 2"
proof -
  have l: "identify [False, False, False] = [1, 2, 3]"
    by (simp add: identify_def identify_iter_def)
  have "(2::nat) < length (identify [False, False, False])" "(2::nat) < 2 ^ 63 - 1"
    by (simp_all add: l)
  from identify_fresh_increasing [OF this] l show ?thesis by auto
qed

text \<open>
  C6 as stated fails once the counter wraps: with the context never done, the
  \<open>2 ^ 63\<close>-th value handed out (index \<open>2 ^ 63 - 1\<close>) is \<open>- 2 ^ 63\<close>, which is not
  positive and is below the first value handed out.
\<close>

theorem identify_wraps_counterexample:
  "sint (identify (replicate (2 ^ 63) False) ! (2 ^ 63 - 1)) = - (2 ^ 63)
    \<and> \<not> 0 <s identify (replicate (2 ^ 63) False) ! (2 ^ 63 - 1)
    \<and> identify (replicate (2 ^ 63) False) ! (2 ^ 63 - 1) <s identify (replicate (2 ^ 63) False) ! 0"
proof -
  let ?ds = "replicate (2 ^ 63) False"
  have len: "length (identify ?ds) = 2 ^ 63"
    using identify_loop_live [of ?ds 1] by (simp add: identify_def)
  have "identify ?ds ! (2 ^ 63 - 1) = 1 + of_nat (2 ^ 63 - 1)"
    using identify_loop_nth [of "2 ^ 63 - 1" ?ds 1] len by (simp add: identify_def)
  then have last: "identify ?ds ! (2 ^ 63 - 1) = (2 ^ 63 :: goint)" by simp
  have "0 < length (identify_loop ?ds 1)"
    using len by (simp add: identify_def)
  then have "identify ?ds ! 0 = 1 + of_nat 0"
    unfolding identify_def by (rule identify_loop_nth)
  then have first: "identify ?ds ! 0 = (1 :: goint)" by simp
  show ?thesis unfolding last first by (simp add: word_sless_alt)
qed

section \<open>Properties of the dispatcher\<close>



lemma read_iter_decode_error:
  assumes "unmarshal body = (d, Some err)" and "ctx_err s = None \<or> \<not> pick"
  shows "read_iter unmarshal pick (body # rest, s)
    = (Stop (Ret err), rest, s\<lparr>ws_closed := True\<rparr>)"
  using assms
  by (auto simp: read_iter_def read_dispatch_def split: option.splits)

lemma read_iter_miss:
  assumes "unmarshal body = (d, None)" and "ctx_err s = None \<or> \<not> pick"
    and "\<forall>c. Map s (frame_key d) \<noteq> Some (ChanBytes c)"
  shows "read_iter unmarshal pick (body # rest, s) = (Continue, rest @ [body], s)"
  using assms
  by (auto simp: read_iter_def read_dispatch_def split: option.splits any_chan.splits)







lemma read_loop_stop:
  "read_iter unmarshal pick st = (Stop r, st') \<Longrightarrow>
     read_loop unmarshal (pick # picks) st = (Stop r, st')"
  by simp

text \<open>
  C3 (as the code has it). When the frame at the head of \<open>msgCh\<close> fails to decode (and
  the \<open>select\<close> takes it), \<open>read\<close> returns the decode error: the loop ends there whatever
  the schedule, the websocket is closed, no channel and no map entry is touched, and
  the frames still queued or still on the connection are left undelivered.
\<close>

theorem read_decode_error_ends_dispatcher:
  assumes "snd (unmarshal body) = Some err" and "ctx_err s = None \<or> \<not> pick"
  shows "read_loop unmarshal (pick # picks) (body # rest, s)
    = (Stop (Ret err), rest, s\<lparr>ws_closed := True\<rparr>)"
proof -
  obtain d where "unmarshal body = (d, Some err)"
    using assms(1) by (cases "unmarshal body") auto
  then have "read_iter unmarshal pick (body # rest, s)
    = (Stop (Ret err), rest, s\<lparr>ws_closed := True\<rparr>)"
    using assms(2) by (rule read_iter_decode_error)
  then show ?thesis by (rule read_loop_stop)
qed

text \<open>The state after one \<open>Mkdir\<close> call on a new sandbox, parked waiting for its reply.\<close>

lemma one_call_state:
  "Mkdir (\<lambda>req. (js req, None)) um None False path (NewSandbox [] None inbound)
   = (Blocks,
      \<lparr>Cwd = [], Map = [IntKey 1 \<mapsto> ChanBytes 0], idCh = Some 2,
       ctx_err = None, ws_in = inbound,
       ws_out = [js \<lparr>req_JSONRPC = rpc, req_Method = filesystemMakeDir, req_ID = 1,
                     req_Params = [AString path]\<rparr>],
       ws_write_err = None, ws_closed = False,
       bchans = (\<lambda>c. if c = 0 then Receiving else NoReceiver),
       echans = (\<lambda>c. NoReceiver), errchans = (\<lambda>c. NoReceiver), dchans = (\<lambda>c. NoReceiver),
       next_chan = 1\<rparr>)"
  by (auto simp: Mkdir_def Mkdir_select_def await_def select_recv_ctx_def make_chan_def
      writeRequest_def NewSandbox_def identify_iter_def Let_def fun_eq_iff)

text \<open>
  A new sandbox with a truncated frame queued: the loop returns the decode error and
  closes the websocket.
\<close>

theorem read_decode_error_ends_dispatcher_witness:
  "read_loop (\<lambda>b. (\<lparr>dec_Method = [], dec_ID = 0, dec_Subscription = []\<rparr>,
                     Some (External ''unexpected end of JSON input'')))
     [False, False] ([''{''], NewSandbox [] None [])
   = (Stop (Ret (External ''unexpected end of JSON input'')), [],
      (NewSandbox [] None [])\<lparr>ws_closed := True\<rparr>)"
  using read_decode_error_ends_dispatcher
    [of "\<lambda>b. (\<lparr>dec_Method = [], dec_ID = 0, dec_Subscription = []\<rparr>,
                     Some (External ''unexpected end of JSON input''))"
        "''{''" "External ''unexpected end of JSON input''" "NewSandbox [] None []" False "[False]" "[]"]
  by (simp add: NewSandbox_def)

text \<open>
  C3 as stated fails. A call with id 1 is parked; the connection delivers a truncated
  frame and then the well-formed reply with id 1. The dispatcher returns the decode
  error on the first frame: the reply stays on the connection and the caller's channel
  is still waiting.
\<close>

theorem read_malformed_frame_counterexample:
  \<open>\<forall>js um.
     (let truncated = ''{"id":1,'';
          reply = ''{"id":1,"result":"","error":{"message":""}}'';
          called = snd (Mkdir (\<lambda>req. (js req, None)) um None False ''a''
                     (NewSandbox [] None [Inr truncated, Inr reply]));
          ended = read_loop
                    (\<lambda>b. if b = reply
                          then (\<lparr>dec_Method = [], dec_ID = 1, dec_Subscription = []\<rparr>, None)
                          else (\<lparr>dec_Method = [], dec_ID = 0, dec_Subscription = []\<rparr>,
                                Some (External ''unexpected end of JSON input'')))
                    [False, False, False, False] ([], called)
      in Map called (IntKey 1) = Some (ChanBytes 0)
         \<and> bchans called 0 = Receiving
         \<and> ended = (Stop (Ret (External ''unexpected end of JSON input'')), [],
                    called\<lparr>ws_in := [Inr reply], ws_closed := True\<rparr>))\<close>
  by (simp add: Let_def one_call_state read_iter_def read_default_def read_dispatch_def)

lemma read_loop_miss_spins:
  assumes "unmarshal body = (d, None)" and "ctx_err s = None"
    and "\<forall>c. Map s (frame_key d) \<noteq> Some (ChanBytes c)"
  shows "read_loop unmarshal picks ([body], s) = (Continue, [body], s)"
proof (induction picks)
  case Nil
  show ?case by simp
next
  case (Cons pick picks)
  have "read_iter unmarshal pick ([body], s) = (Continue, [] @ [body], s)"
    using assms by (intro read_iter_miss) simp_all
  with Cons show ?case by simp
qed

text \<open>
  C4 (as the code has it). A frame whose key has no \<open>chan []byte\<close> entry in the map is
  put back at the end of \<open>msgCh\<close> and nothing else changes. When it is the only queued
  frame and the context is not done, every schedule, however long, leaves the loop
  running in the same state: the frame is taken again at once on each iteration, the
  connection is not read, and the frame is never dropped.
\<close>

theorem read_miss_requeues_without_bound:
  assumes "unmarshal body = (d, None)" and "ctx_err s = None"
    and "\<forall>c. Map s (if dec_ID d \<noteq> 0 then IntKey (dec_ID d) else StringKey (dec_Subscription d))
              \<noteq> Some (ChanBytes c)"
  shows "read_iter unmarshal pick (body # rest, s) = (Continue, rest @ [body], s)
    \<and> read_loop unmarshal picks ([body], s) = (Continue, [body], s)"
proof -
  have miss: "\<forall>c. Map s (frame_key d) \<noteq> Some (ChanBytes c)"
    using assms(3) by (simp add: frame_key_def)
  have "read_iter unmarshal pick (body # rest, s) = (Continue, rest @ [body], s)"
    using assms(1,2) miss by (intro read_iter_miss) simp_all
  moreover have "read_loop unmarshal picks ([body], s) = (Continue, [body], s)"
    using assms(1,2) miss by (rule read_loop_miss_spins)
  ultimately show ?thesis ..
qed

text \<open>
  On a new sandbox a push event for \<open>sub-1\<close>, queued ahead of another frame, goes to the
  back of the queue; queued alone, it is still there after three iterations.
\<close>

theorem read_miss_requeues_without_bound_witness:
  \<open>read_iter (\<lambda>b. (\<lparr>dec_Method = [], dec_ID = 0, dec_Subscription = ''sub-1''\<rparr>, None)) False
      ([''{"params":{"subscription":"sub-1","result":{"line":"hello"}}}'', ''{"id":7}''],
       NewSandbox [] None [])
    = (Continue,
       [''{"id":7}'', ''{"params":{"subscription":"sub-1","result":{"line":"hello"}}}''],
       NewSandbox [] None [])
    \<and> read_loop (\<lambda>b. (\<lparr>dec_Method = [], dec_ID = 0, dec_Subscription = ''sub-1''\<rparr>, None))
        [False, True, False]
        ([''{"params":{"subscription":"sub-1","result":{"line":"hello"}}}''], NewSandbox [] None [])
    = (Continue, [''{"params":{"subscription":"sub-1","result":{"line":"hello"}}}''],
       NewSandbox [] None [])\<close>
proof -
  define um :: "decResp unmarshal"
    where "um = (\<lambda>b. (\<lparr>dec_Method = [], dec_ID = 0, dec_Subscription = ''sub-1''\<rparr>, None))"
  define d where "d = \<lparr>dec_Method = [], dec_ID = 0, dec_Subscription = ''sub-1''\<rparr>"
  define ev :: bytes where \<open>ev = ''{"params":{"subscription":"sub-1","result":{"line":"hello"}}}''\<close>
  have h1: "um ev = (d, None)" by (simp add: um_def d_def)
  have h2: "ctx_err (NewSandbox [] None []) = None" by (simp add: NewSandbox_def)
  have h3: "\<forall>c. Map (NewSandbox [] None [])
            (if dec_ID d \<noteq> 0 then IntKey (dec_ID d) else StringKey (dec_Subscription d))
          \<noteq> Some (ChanBytes c)"
    by (simp add: NewSandbox_def)
  from read_miss_requeues_without_bound
    [where unmarshal = um and body = ev and d = d and pick = False
       and rest = \<open>[''{"id":7}'']\<close> and picks = "[False, True, False]", OF h1 h2 h3]
  show ?thesis unfolding um_def ev_def by simp
qed

text \<open>
  C4 as stated fails. On a new sandbox (empty map) a push event for a subscription
  nobody holds is queued while a further frame waits on the connection. Whatever the
  number of iterations, the loop is still running, the event is still queued and the
  connection has not been read: there is no retry bound and the frame is never
  discarded.
\<close>

theorem read_unmatched_frame_counterexample:
  \<open>\<forall>n. read_loop (\<lambda>b. (\<lparr>dec_Method = [], dec_ID = 0, dec_Subscription = ''sub-1''\<rparr>, None))
        (replicate n False)
        ([''{"params":{"subscription":"sub-1","result":{"line":"hello"}}}''],
         NewSandbox [] None [Inr ''{"id":7}''])
    = (Continue, [''{"params":{"subscription":"sub-1","result":{"line":"hello"}}}''],
       NewSandbox [] None [Inr ''{"id":7}''])\<close>
proof
  fix n
  show \<open>read_loop (\<lambda>b. (\<lparr>dec_Method = [], dec_ID = 0, dec_Subscription = ''sub-1''\<rparr>, None))
        (replicate n False)
        ([''{"params":{"subscription":"sub-1","result":{"line":"hello"}}}''],
         NewSandbox [] None [Inr ''{"id":7}''])
    = (Continue, [''{"params":{"subscription":"sub-1","result":{"line":"hello"}}}''],
       NewSandbox [] None [Inr ''{"id":7}''])\<close>
    by (rule read_loop_miss_spins
          [where d = "\<lparr>dec_Method = [], dec_ID = 0, dec_Subscription = ''sub-1''\<rparr>"])
       (simp_all add: NewSandbox_def frame_key_def)
qed

lemma read_dispatch_frame:
  assumes "read_dispatch unmarshal body rest s = (r, msgCh', s')"
  shows "Map s' = Map s \<and> echans s' = echans s \<and> errchans s' = errchans s
    \<and> dchans s' = dchans s \<and> ws_in s' = ws_in s
    \<and> set msgCh' \<subseteq> insert body (set rest)
    \<and> (\<forall>c. bchans s' c = bchans s c \<or> bchans s' c = Handed body)
    \<and> (\<forall>e. r = Stop (Ret e) \<longrightarrow> ws_closed s' \<and> bchans s' = bchans s)"
  using assms
  by (auto simp: read_dispatch_def chan_send_def Let_def
      split: prod.splits option.splits any_chan.splits chan_state.splits)

lemma read_default_frame:
  assumes "read_default s = (r, msgCh', s')"
  shows "Map s' = Map s \<and> echans s' = echans s \<and> errchans s' = errchans s
    \<and> dchans s' = dchans s \<and> bchans s' = bchans s
    \<and> set msgCh' \<union> {b. Inr b \<in> set (ws_in s')} \<subseteq> {b. Inr b \<in> set (ws_in s)}
    \<and> (\<forall>e. r = Stop (Ret e) \<longrightarrow> ws_closed s')"
  using assms
  by (auto simp: read_default_def split: list.splits sum.splits)

lemma read_iter_frame:
  assumes "read_iter unmarshal pick (msgCh, s) = (r, msgCh', s')"
  shows "Map s' = Map s \<and> echans s' = echans s \<and> errchans s' = errchans s
    \<and> dchans s' = dchans s
    \<and> set msgCh' \<union> {b. Inr b \<in> set (ws_in s')} \<subseteq> set msgCh \<union> {b. Inr b \<in> set (ws_in s)}
    \<and> (\<forall>c. bchans s' c = bchans s c \<or> (\<exists>body \<in> set msgCh. bchans s' c = Handed body))
    \<and> (\<forall>e. r = Stop (Ret e) \<longrightarrow> ws_closed s' \<and> bchans s' = bchans s)"
proof (cases msgCh)
  case Nil
  show ?thesis
  proof (cases "ctx_err s")
    case None
    with Nil assms have "read_default s = (r, msgCh', s')" by (simp add: read_iter_def)
    from read_default_frame [OF this] Nil show ?thesis by auto
  next
    case (Some e)
    with Nil assms show ?thesis by (auto simp: read_iter_def)
  qed
next
  case (Cons body rest)
  show ?thesis
  proof (cases "ctx_err s \<noteq> None \<and> pick")
    case True
    with Cons assms show ?thesis by (auto simp: read_iter_def)
  next
    case False
    with Cons assms have "read_dispatch unmarshal body rest s = (r, msgCh', s')"
      by (auto simp: read_iter_def split: option.splits)
    from read_dispatch_frame [OF this] Cons show ?thesis by auto
  qed
qed

lemma read_loop_frame:
  assumes "read_loop unmarshal picks (msgCh, s) = (Stop (Ret e), msgCh', s')"
  shows "Map s' = Map s \<and> echans s' = echans s \<and> errchans s' = errchans s
    \<and> dchans s' = dchans s \<and> ws_closed s'
    \<and> (\<forall>c. bchans s' c = bchans s c
           \<or> (\<exists>body \<in> set msgCh \<union> {b. Inr b \<in> set (ws_in s)}. bchans s' c = Handed body))"
  using assms
proof (induction picks arbitrary: msgCh s)
  case Nil
  then show ?case by simp
next
  case (Cons pick picks)
  obtain r m1 s1 where it: "read_iter unmarshal pick (msgCh, s) = (r, m1, s1)"
    by (metis prod_cases3)
  note fr = read_iter_frame [OF it]
  show ?case
  proof (cases r)
    case Continue
    with it Cons.prems have "read_loop unmarshal picks (m1, s1) = (Stop (Ret e), msgCh', s')"
      by simp
    note ih = Cons.IH [OF this]
    have "bchans s' c = bchans s c
           \<or> (\<exists>body \<in> set msgCh \<union> {b. Inr b \<in> set (ws_in s)}. bchans s' c = Handed body)" for c
    proof -
      from ih have "bchans s' c = bchans s1 c
           \<or> (\<exists>body \<in> set m1 \<union> {b. Inr b \<in> set (ws_in s1)}. bchans s' c = Handed body)"
        by blast
      moreover from fr have "bchans s1 c = bchans s c \<or> (\<exists>body \<in> set msgCh. bchans s1 c = Handed body)"
        by blast
      moreover from fr have "set m1 \<union> {b. Inr b \<in> set (ws_in s1)}
          \<subseteq> set msgCh \<union> {b. Inr b \<in> set (ws_in s)}"
        by blast
      ultimately show ?thesis by (metis (no_types, lifting) UnI1 subsetD)
    qed
    with ih fr show ?thesis by simp
  next
    case (Stop x)
    with it Cons.prems have "x = Ret e" "msgCh' = m1" "s' = s1" by simp_all
    with fr Stop show ?thesis by simp
  qed
qed

text \<open>
  C5 (as the code has it). When \<open>read\<close> returns (a decode error, a read error or the
  context's error), all it does on the way out is close the websocket. The map is as
  it was when the loop started, no event, error or \<open>Done\<close> channel has changed, and a
  \<open>chan []byte\<close> either is as it was or holds a frame that came in over the connection
  and was dispatched to it before the exit: no channel is closed and no waiter is
  handed a frame made up for the exit.
\<close>

theorem read_exit_notifies_no_waiter:
  assumes "read_loop unmarshal picks (msgCh, s) = (Stop (Ret e), msgCh', s')"
  shows "Map s' = Map s \<and> ws_closed s'
    \<and> echans s' = echans s \<and> errchans s' = errchans s \<and> dchans s' = dchans s
    \<and> (\<forall>c. bchans s' c = bchans s c
           \<or> (\<exists>body \<in> set msgCh \<union> {b. Inr b \<in> set (ws_in s)}. bchans s' c = Handed body))
    \<and> (\<forall>c. bchans s' c = Closed \<longrightarrow> bchans s c = Closed)"
proof -
  note fr = read_loop_frame [OF assms]
  have "bchans s c = Closed" if "bchans s' c = Closed" for c
  proof -
    from fr have "bchans s' c = bchans s c
           \<or> (\<exists>body \<in> set msgCh \<union> {b. Inr b \<in> set (ws_in s)}. bchans s' c = Handed body)"
      by blast
    with that show ?thesis by auto
  qed
  with fr show ?thesis by blast
qed

text \<open>
  A call with id 1 is parked and the connection fails: \<open>read\<close> returns, and the call's
  entry and its waiting channel are as they were.
\<close>

theorem read_exit_notifies_no_waiter_witness:
  "\<forall>js um.
     (let called = snd (Mkdir (\<lambda>req. (js req, None)) um None False ''a''
                     (NewSandbox [] None [Inl (External ''unexpected EOF'')]));
          ended = read_loop (\<lambda>b. (\<lparr>dec_Method = [], dec_ID = 0, dec_Subscription = []\<rparr>, None))
                    [False] ([], called)
      in fst ended = Stop (Ret (External ''unexpected EOF''))
         \<and> Map (snd (snd ended)) (IntKey 1) = Some (ChanBytes 0)
         \<and> ws_closed (snd (snd ended))
         \<and> bchans (snd (snd ended)) 0 = Receiving)"
proof (intro allI)
  fix js :: "Request \<Rightarrow> bytes" and um :: "(string, APIError) Response unmarshal"
  define umd :: "decResp unmarshal"
    where "umd = (\<lambda>b. (\<lparr>dec_Method = [], dec_ID = 0, dec_Subscription = []\<rparr>, None))"
  define s where "s = snd (Mkdir (\<lambda>req. (js req, None)) um None False ''a''
                        (NewSandbox [] None [Inl (External ''unexpected EOF'')]))"
  have run: "read_loop umd [False] ([], s)
    = (Stop (Ret (External ''unexpected EOF'')), [], s\<lparr>ws_in := [], ws_closed := True\<rparr>)"
    unfolding s_def by (simp add: one_call_state read_iter_def read_default_def)
  have m: "Map s (IntKey 1) = Some (ChanBytes 0)" and b: "bchans s 0 = Receiving"
    unfolding s_def by (simp_all add: one_call_state)
  from read_exit_notifies_no_waiter [OF run]
  have "Map (s\<lparr>ws_in := [], ws_closed := True\<rparr>) = Map s"
    and "ws_closed (s\<lparr>ws_in := [], ws_closed := True\<rparr>)"
    and "\<forall>c. bchans (s\<lparr>ws_in := [], ws_closed := True\<rparr>) c = Closed \<longrightarrow> bchans s c = Closed"
    by blast+
  with m b have "fst (read_loop umd [False] ([], s)) = Stop (Ret (External ''unexpected EOF''))
     \<and> Map (snd (snd (read_loop umd [False] ([], s)))) (IntKey 1) = Some (ChanBytes 0)
     \<and> ws_closed (snd (snd (read_loop umd [False] ([], s))))
     \<and> bchans (snd (snd (read_loop umd [False] ([], s)))) 0 = Receiving"
    unfolding run by simp
  then show "let called = snd (Mkdir (\<lambda>req. (js req, None)) um None False ''a''
                     (NewSandbox [] None [Inl (External ''unexpected EOF'')]));
          ended = read_loop (\<lambda>b. (\<lparr>dec_Method = [], dec_ID = 0, dec_Subscription = []\<rparr>, None))
                    [False] ([], called)
      in fst ended = Stop (Ret (External ''unexpected EOF''))
         \<and> Map (snd (snd ended)) (IntKey 1) = Some (ChanBytes 0)
         \<and> ws_closed (snd (snd ended))
         \<and> bchans (snd (snd ended)) 0 = Receiving"
    unfolding Let_def umd_def s_def .
qed

text \<open>
  C5 as stated fails. A call with id 1 is parked and the connection fails. \<open>read\<close>
  returns the read error and closes the websocket; the call's channel is still
  registered, still open and still waiting, so the call, whose own context is not done,
  stays blocked in its \<open>select\<close>.
\<close>

theorem read_exit_counterexample:
  "\<forall>js um.
     (let called = snd (Mkdir (\<lambda>req. (js req, None)) um None False ''a''
                     (NewSandbox [] None [Inl (External ''unexpected EOF'')]));
          ended = read_loop (\<lambda>b. (\<lparr>dec_Method = [], dec_ID = 0, dec_Subscription = []\<rparr>, None))
                    [False] ([], called)
      in Map called (IntKey 1) = Some (ChanBytes 0)
         \<and> bchans called 0 = Receiving
         \<and> ended = (Stop (Ret (External ''unexpected EOF'')), [],
                    called\<lparr>ws_in := [], ws_closed := True\<rparr>)
         \<and> fst (Mkdir_select um None False 0 (snd (snd ended))) = Blocks)"
  by (simp add: Let_def one_call_state read_iter_def read_default_def Mkdir_select_def
      await_def select_recv_ctx_def)

section \<open>Properties of the one-shot calls\<close>

lemma writeRequest_registers:
  assumes "writeRequest marshal ctx pick method params respCh s = (Ret None, s')"
    and "idCh s = Some i"
  shows "Map s' (IntKey i) = Some (ChanBytes respCh)"
  using assms
  by (auto simp: writeRequest_def Let_def split: if_splits prod.splits option.splits)

lemma await_cancelled:
  assumes "bchans s respCh = NoReceiver \<or> bchans s respCh = Receiving"
  shows "await (Some e) pick respCh s = (CtxDone e, s\<lparr>bchans := (bchans s)(respCh := NoReceiver)\<rparr>)"
  using assms by (auto simp: await_def select_recv_ctx_def)

text \<open>
  C2 (as the code has it). A one-shot call has sent its request (\<open>writeRequest\<close> took
  the id \<open>i\<close> and stored the call's channel under it) and no reply has been handed to
  its channel. When its context is then done, the call's \<open>select\<close> returns the context's
  own error, and the entry stored under \<open>i\<close> is still in the map: none of the calls
  removes it. (\<open>Ls\<close> also closes its channel on return.)
\<close>

theorem call_cancel_returns_ctx_error_and_keeps_entry:
  assumes "writeRequest marshal ctx0 pick0 method params respCh s0 = (Ret None, s)"
    and "idCh s0 = Some i"
    and "bchans s respCh = NoReceiver \<or> bchans s respCh = Receiving"
  shows "Map s (IntKey i) = Some (ChanBytes respCh)
    \<and> fst (Mkdir_select umM (Some e) pick respCh s) = Ret (Some e)
    \<and> Map (snd (Mkdir_select umM (Some e) pick respCh s)) (IntKey i) = Some (ChanBytes respCh)
    \<and> fst (Ls_select umL (Some e) pick respCh s) = Ret (Inl e)
    \<and> Map (snd (Ls_select umL (Some e) pick respCh s)) (IntKey i) = Some (ChanBytes respCh)
    \<and> fst (Read_select umR (Some e) pick respCh s) = Ret (Inl e)
    \<and> Map (snd (Read_select umR (Some e) pick respCh s)) (IntKey i) = Some (ChanBytes respCh)
    \<and> fst (Write_select umW (Some e) pick respCh s) = Ret (Some e)
    \<and> Map (snd (Write_select umW (Some e) pick respCh s)) (IntKey i) = Some (ChanBytes respCh)
    \<and> fst (Start_select umS (Some e) pick p respCh s) = Ret (Some e)
    \<and> Map (snd (Start_select umS (Some e) pick p respCh s)) (IntKey i) = Some (ChanBytes respCh)
    \<and> fst (ExecCell_select umE (Some e) pick respCh s) = Ret (Inl e)
    \<and> Map (snd (ExecCell_select umE (Some e) pick respCh s)) (IntKey i) = Some (ChanBytes respCh)"
proof -
  have reg: "Map s (IntKey i) = Some (ChanBytes respCh)"
    using assms(1,2) by (rule writeRequest_registers)
  have aw: "await (Some e) pick respCh s
    = (CtxDone e, s\<lparr>bchans := (bchans s)(respCh := NoReceiver)\<rparr>)"
    using assms(3) by (rule await_cancelled)
  show ?thesis
    using reg
    by (simp add: aw Mkdir_select_def Ls_select_def Read_select_def Write_select_def
        Start_select_def ExecCell_select_def close_bchan_def)
qed

text \<open>
  \<open>Mkdir\<close> on a new sandbox, cancelled while it waits for its reply: it returns
  \<open>context.Canceled\<close> and its channel is still stored under id 1.
\<close>

theorem call_cancel_returns_ctx_error_and_keeps_entry_witness:
  "\<forall>js um.
     (let called = snd (Mkdir (\<lambda>req. (js req, None)) um None False ''a''
                     (NewSandbox [] None []));
          cancelled = Mkdir_select um (Some Canceled) False 0 called
      in fst cancelled = Ret (Some Canceled)
         \<and> Map (snd cancelled) (IntKey 1) = Some (ChanBytes 0))"
proof (intro allI)
  fix js :: "Request \<Rightarrow> bytes" and um :: "(string, APIError) Response unmarshal"
  define s0 where "s0 = snd (make_chan (NewSandbox [] None []))"
  define s where "s = snd (Mkdir (\<lambda>req. (js req, None)) um None False ''a'' (NewSandbox [] None []))"
  have s: "s = \<lparr>Cwd = [], Map = [IntKey 1 \<mapsto> ChanBytes 0], idCh = Some 2,
       ctx_err = None, ws_in = [],
       ws_out = [js \<lparr>req_JSONRPC = rpc, req_Method = filesystemMakeDir, req_ID = 1,
                     req_Params = [AString ''a'']\<rparr>],
       ws_write_err = None, ws_closed = False,
       bchans = (\<lambda>c. if c = 0 then Receiving else NoReceiver),
       echans = (\<lambda>c. NoReceiver), errchans = (\<lambda>c. NoReceiver), dchans = (\<lambda>c. NoReceiver),
       next_chan = 1\<rparr>"
    unfolding s_def by (simp add: one_call_state)
  have h1: "writeRequest (\<lambda>req. (js req, None)) None False filesystemMakeDir [AString ''a''] 0 s0
    = (Ret None, s\<lparr>bchans := (\<lambda>c. NoReceiver)\<rparr>)"
    unfolding s s0_def
    by (auto simp: make_chan_def writeRequest_def NewSandbox_def identify_iter_def Let_def fun_eq_iff)
  have h2: "idCh s0 = Some 1"
    unfolding s0_def by (simp add: make_chan_def NewSandbox_def identify_iter_def)
  have h3: "bchans (s\<lparr>bchans := (\<lambda>c. NoReceiver)\<rparr>) 0 = NoReceiver
      \<or> bchans (s\<lparr>bchans := (\<lambda>c. NoReceiver)\<rparr>) 0 = Receiving"
    by simp
  have same: "Mkdir_select um (Some Canceled) False 0 s
    = Mkdir_select um (Some Canceled) False 0 (s\<lparr>bchans := (\<lambda>c. NoReceiver)\<rparr>)"
    unfolding s by (auto simp: Mkdir_select_def await_def select_recv_ctx_def fun_eq_iff)
  from call_cancel_returns_ctx_error_and_keeps_entry
    [where umM = um and e = Canceled and pick = False, OF h1 h2 h3]
  have "fst (Mkdir_select um (Some Canceled) False 0 s) = Ret (Some Canceled)
     \<and> Map (snd (Mkdir_select um (Some Canceled) False 0 s)) (IntKey 1) = Some (ChanBytes 0)"
    unfolding same by blast
  then show "let called = snd (Mkdir (\<lambda>req. (js req, None)) um None False ''a''
                     (NewSandbox [] None []));
          cancelled = Mkdir_select um (Some Canceled) False 0 called
      in fst cancelled = Ret (Some Canceled)
         \<and> Map (snd cancelled) (IntKey 1) = Some (ChanBytes 0)"
    unfolding Let_def s_def .
qed

text \<open>
  C2 as stated fails. \<open>Mkdir\<close> sends its request with id 1 and its context is cancelled
  before any reply. It returns \<open>context.Canceled\<close>, and the map still holds its channel
  under id 1. When the reply then arrives, the dispatcher finds that entry and blocks
  sending to the channel nobody receives from.
\<close>

theorem call_cancel_counterexample:
  \<open>\<forall>js um.
     (let reply = ''{"id":1,"result":"","error":{"message":""}}'';
          called = snd (Mkdir (\<lambda>req. (js req, None)) um None False ''a''
                     (NewSandbox [] None [Inr reply]));
          cancelled = Mkdir_select um (Some Canceled) False 0 called;
          late = read_loop (\<lambda>b. (\<lparr>dec_Method = [], dec_ID = 1, dec_Subscription = []\<rparr>, None))
                   [False, False] ([], snd cancelled)
      in Map called (IntKey 1) = Some (ChanBytes 0)
         \<and> fst cancelled = Ret (Some Canceled)
         \<and> Map (snd cancelled) (IntKey 1) = Some (ChanBytes 0)
         \<and> fst late = Stop Blocks)\<close>
  by (simp add: Let_def one_call_state Mkdir_select_def await_def select_recv_ctx_def
      read_iter_def read_default_def read_dispatch_def frame_key_def chan_send_def)

section \<open>Application errors in replies\<close>

text \<open>
  C9 fails on the code. \<open>Ls\<close> sends its request with id 1; the reply carries the
  error string \<open>permission denied\<close> and no result. The dispatcher hands it to the call,
  and \<open>Ls\<close> returns the (empty) result with a nil error. \<open>Read\<close> on a reply of the same
  shape returns an error carrying the message.
\<close>

theorem Ls_ignores_reply_error:
  \<open>\<forall>js.
     (let reply = ''{"id":1,"result":null,"error":"permission denied"}'';
          decoded = (\<lambda>b. (\<lparr>dec_Method = [], dec_ID = 1, dec_Subscription = []\<rparr>, None));
          listing = (\<lambda>b. (\<lparr>resp_ID = 1, resp_Result = [], resp_Error = ''permission denied''\<rparr>,
                          None));
          content = (\<lambda>b. (\<lparr>resp_ID = 1, resp_Result = [], resp_Error = ''permission denied''\<rparr>,
                          None));
          ls_called = snd (Ls (\<lambda>req. (js req, None)) listing None False ''/root''
                        (NewSandbox [] None [Inr reply]));
          read_called = snd (Read (\<lambda>req. (js req, None)) content None False ''/root''
                          (NewSandbox [] None [Inr reply]))
      in fst (Ls_select listing None False 0
                (snd (snd (read_loop decoded [False, False] ([], ls_called)))))
           = Ret (Inr [])
         \<and> fst (Read_select content None False 0
                (snd (snd (read_loop decoded [False, False] ([], read_called)))))
           = Ret (Inl (ReadFailed ''permission denied'')))\<close>
  by (simp add: Let_def Ls_def Ls_select_def Read_def Read_select_def await_def
      select_recv_ctx_def make_chan_def writeRequest_def NewSandbox_def identify_iter_def
      read_iter_def read_default_def read_dispatch_def frame_key_def chan_send_def
      decodeResponse_def close_bchan_def)

section \<open>Properties of the subscriptions\<close>



text \<open>
  How a process subscription becomes active on a new sandbox. \<open>subscribe\<close> makes the
  output channel 0 and the error channel 1; the goroutine makes its channel 2, sends
  the subscribe request with id 1 and parks for the acknowledgment; the dispatcher
  reads the acknowledgment off the connection and hands it over; the goroutine stores
  its channel under the token and parks in its loop.
\<close>

lemma subscribe_awaits_ack:
  "subscribe_ack umA 1 2
     (snd (subscribe_request (\<lambda>req. (js req, None)) None False event p 1
        (snd (subscribe (NewSandbox [] None inbound)))))
   = (Blocks,
      (NewSandbox [] None inbound)
        \<lparr>Map := [IntKey 1 \<mapsto> ChanBytes 2], idCh := Some 2,
         ws_out := [js \<lparr>req_JSONRPC = rpc, req_Method = processSubscribe, req_ID = 1,
                         req_Params = [AString event, AString (p_id p)]\<rparr>],
         bchans := (\<lambda>c. if c = 2 then Receiving else NoReceiver),
         next_chan := 3\<rparr>)"
  by (auto simp: subscribe_def subscribe_request_def subscribe_ack_def make_chan_def
      writeRequest_def chan_recv_def NewSandbox_def identify_iter_def Let_def fun_eq_iff)

lemma subscribe_gets_ack:
  assumes "umd ack = (d, None)" and "dec_ID d = 1"
  shows "read_loop umd [False, False]
     ([], (NewSandbox [] None (Inr ack # inbound))
        \<lparr>Map := [IntKey 1 \<mapsto> ChanBytes 2], idCh := Some 2, ws_out := out,
         bchans := (\<lambda>c. if c = 2 then Receiving else NoReceiver),
         next_chan := 3\<rparr>)
   = (Continue, [],
      (NewSandbox [] None inbound)
        \<lparr>Map := [IntKey 1 \<mapsto> ChanBytes 2], idCh := Some 2, ws_out := out,
         bchans := (\<lambda>c. if c = 2 then Handed ack else NoReceiver),
         next_chan := 3\<rparr>)"
  using assms
  by (auto simp: read_iter_def read_default_def read_dispatch_def frame_key_def chan_send_def
      NewSandbox_def fun_eq_iff)

lemma subscribe_becomes_active:
  assumes "umA ack = (res, None)" and "resp_Result res \<noteq> p_id p"
  shows "subscribe_loop_iter umE None pick p 0 2
     (snd (subscribe_ack umA 1 2
        ((NewSandbox [] None inbound)
          \<lparr>Map := [IntKey 1 \<mapsto> ChanBytes 2], idCh := Some 2, ws_out := out,
           bchans := (\<lambda>c. if c = 2 then Handed ack else NoReceiver),
           next_chan := 3\<rparr>)))
   = (Stop Blocks,
      (NewSandbox [] None inbound)
        \<lparr>Map := [IntKey 1 \<mapsto> ChanBytes 2, StringKey (resp_Result res) \<mapsto> ChanBytes 2],
         idCh := Some 2, ws_out := out,
         bchans := (\<lambda>c. if c = 2 then Receiving else NoReceiver),
         next_chan := 3\<rparr>)"
  using assms
  by (cases pick)
    (auto simp: subscribe_ack_def chan_recv_def decodeResponse_def subscribe_loop_iter_def
      Done_def select3_def NewSandbox_def fun_eq_iff)




lemma subscribe_finish_sends:
  assumes "idCh s = Some i"
    and "marshal \<lparr>req_JSONRPC = rpc, req_Method = processUnsubscribe, req_ID = i,
                   req_Params = [AString token]\<rparr> = (jsVal, None)"
    and "ws_write_err s = None"
    and "bchans s respCh = NoReceiver \<or> bchans s respCh = Receiving"
  shows "subscribe_finish marshal unmarshal pick token respCh s
    = (Blocks,
       s\<lparr>Map := (Map s)(StringKey token := None, IntKey i \<mapsto> ChanBytes respCh),
         idCh := identify_iter (ctx_err s \<noteq> None) (i + 1),
         ws_out := ws_out s @ [jsVal],
         bchans := (bchans s)(respCh := Receiving)\<rparr>)"
  using assms
  by (auto simp: subscribe_finish_def writeRequest_def subscribe_unsub_reply_def chan_recv_def
      Let_def)

lemma subscribe_unsub_reply_returns:
  assumes "bchans s respCh = Handed body" and "unmarshal body = (unsubRes, None)"
  shows "subscribe_unsub_reply unmarshal respCh s
    = (Ret (), s\<lparr>bchans := (bchans s)(respCh := Closed)\<rparr>)"
  using assms
  by (simp add: subscribe_unsub_reply_def chan_recv_def decodeResponse_def close_bchan_def)

text \<open>
  C8 (as the code has it). After the event loop of \<open>subscribe\<close> has ended, whatever
  the caller's context, the goroutine deletes the token's entry and calls
  \<open>writeRequest\<close> for \<open>process_unsubscribe\<close> under a context of its own that is not
  done: when the allocator offers an id and the request marshals and writes, the
  request is sent under that id and the goroutine waits for the reply; when the reply
  decodes, the goroutine returns and closes its own channel \<open>respCh\<close>. The output
  channels are left as they were throughout: the subscriber's channel is not closed.
  The consumer that \<open>Watch\<close> starts returns when its context is done and changes
  nothing: it sends no unsubscribe request and closes no channel.
\<close>

theorem subscription_teardown:
  assumes "idCh s = Some i"
    and "marshal \<lparr>req_JSONRPC = rpc, req_Method = processUnsubscribe, req_ID = i,
                   req_Params = [AString token]\<rparr> = (jsVal, None)"
    and "ws_write_err s = None"
    and "bchans s respCh = NoReceiver \<or> bchans s respCh = Receiving"
    and "bchans s2 respCh = Handed body" and "unmarshal body = (unsubRes, None)"
  shows "fst (subscribe_finish marshal unmarshal pick token respCh s) = Blocks
    \<and> ws_out (snd (subscribe_finish marshal unmarshal pick token respCh s)) = ws_out s @ [jsVal]
    \<and> Map (snd (subscribe_finish marshal unmarshal pick token respCh s))
        = (Map s)(StringKey token := None, IntKey i \<mapsto> ChanBytes respCh)
    \<and> echans (snd (subscribe_finish marshal unmarshal pick token respCh s)) = echans s
    \<and> subscribe_unsub_reply unmarshal respCh s2
        = (Ret (), s2\<lparr>bchans := (bchans s2)(respCh := Closed)\<rparr>)
    \<and> Watch_consumer unmarshalW (Some e) path eCh respCh s = (Stop (Ret ()), s)"
proof -
  note fin = subscribe_finish_sends
    [where marshal = marshal and unmarshal = unmarshal and pick = pick, OF assms(1-4)]
  note rep = subscribe_unsub_reply_returns [where unmarshal = unmarshal, OF assms(5,6)]
  have "Watch_consumer unmarshalW (Some e) path eCh respCh s = (Stop (Ret ()), s)"
    by (simp add: Watch_consumer_def)
  with rep show ?thesis by (simp add: fin)
qed

text \<open>
  The loop of a subscription with token \<open>sub-1\<close> has ended: the unsubscribe request is
  sent with id 2 and registered, the token's entry is gone and the output channel is
  as it was.
\<close>

theorem subscription_teardown_witness:
  \<open>\<forall>js.
     (let ended = (NewSandbox [] None [])
            \<lparr>Map := [IntKey 1 \<mapsto> ChanBytes 2, StringKey ''sub-1'' \<mapsto> ChanBytes 2],
             idCh := Some 2,
             ws_out := [js \<lparr>req_JSONRPC = rpc, req_Method = processSubscribe, req_ID = 1,
                             req_Params = [AString ''onStdout'', AString ''aaaaaaaaaaaa'']\<rparr>],
             echans := (\<lambda>c. if c = 0 then Receiving else NoReceiver),
             next_chan := 3\<rparr>;
          unsub = js \<lparr>req_JSONRPC = rpc, req_Method = processUnsubscribe, req_ID = 2,
                      req_Params = [AString ''sub-1'']\<rparr>;
          finished = snd (subscribe_finish (\<lambda>req. (js req, None))
                      (\<lambda>b. (\<lparr>resp_ID = 2, resp_Result = True, resp_Error = []\<rparr>, None))
                      False ''sub-1'' 2 ended)
      in ws_out finished = ws_out ended @ [unsub]
         \<and> Map finished (StringKey ''sub-1'') = None
         \<and> Map finished (IntKey 2) = Some (ChanBytes 2)
         \<and> echans finished 0 = Receiving)\<close>
proof
  fix js :: "Request \<Rightarrow> bytes"
  define s where "s = (NewSandbox [] None [])
            \<lparr>Map := [IntKey 1 \<mapsto> ChanBytes 2, StringKey ''sub-1'' \<mapsto> ChanBytes 2],
             idCh := Some 2,
             ws_out := [js \<lparr>req_JSONRPC = rpc, req_Method = processSubscribe, req_ID = 1,
                             req_Params = [AString ''onStdout'', AString ''aaaaaaaaaaaa'']\<rparr>],
             echans := (\<lambda>c. if c = 0 then Receiving else NoReceiver),
             next_chan := 3\<rparr>"
  define um :: "(bool, string) Response unmarshal"
    where "um = (\<lambda>b. (\<lparr>resp_ID = 2, resp_Result = True, resp_Error = []\<rparr>, None))"
  define m :: "Request marshal" where "m = (\<lambda>req. (js req, None))"
  define unsub where "unsub = js \<lparr>req_JSONRPC = rpc, req_Method = processUnsubscribe, req_ID = 2,
                      req_Params = [AString ''sub-1'']\<rparr>"
  define reply :: bytes where \<open>reply = ''{"id":2,"result":true}''\<close>
  have h1: "idCh s = Some 2" by (simp add: s_def)
  have h2: "m \<lparr>req_JSONRPC = rpc, req_Method = processUnsubscribe, req_ID = 2,
               req_Params = [AString ''sub-1'']\<rparr> = (unsub, None)"
    by (simp add: m_def unsub_def)
  have h3: "ws_write_err s = None" by (simp add: s_def NewSandbox_def)
  have h4: "bchans s 2 = NoReceiver \<or> bchans s 2 = Receiving" by (simp add: s_def NewSandbox_def)
  have h5: "bchans (s\<lparr>bchans := (\<lambda>c. Handed reply)\<rparr>) 2 = Handed reply" by simp
  have h6: "um reply = (\<lparr>resp_ID = 2, resp_Result = True, resp_Error = []\<rparr>, None)"
    by (simp add: um_def)
  have e: "echans s 0 = Receiving" by (simp add: s_def)
  from subscription_teardown
    [where marshal = m and unmarshal = um and pick = False, OF h1 h2 h3 h4 h5 h6]
  have "ws_out (snd (subscribe_finish m um False ''sub-1'' 2 s)) = ws_out s @ [unsub]
     \<and> Map (snd (subscribe_finish m um False ''sub-1'' 2 s)) (StringKey ''sub-1'') = None
     \<and> Map (snd (subscribe_finish m um False ''sub-1'' 2 s)) (IntKey 2) = Some (ChanBytes 2)
     \<and> echans (snd (subscribe_finish m um False ''sub-1'' 2 s)) 0 = Receiving"
    using e by simp
  then show \<open>let ended = (NewSandbox [] None [])
            \<lparr>Map := [IntKey 1 \<mapsto> ChanBytes 2, StringKey ''sub-1'' \<mapsto> ChanBytes 2],
             idCh := Some 2,
             ws_out := [js \<lparr>req_JSONRPC = rpc, req_Method = processSubscribe, req_ID = 1,
                             req_Params = [AString ''onStdout'', AString ''aaaaaaaaaaaa'']\<rparr>],
             echans := (\<lambda>c. if c = 0 then Receiving else NoReceiver),
             next_chan := 3\<rparr>;
          unsub = js \<lparr>req_JSONRPC = rpc, req_Method = processUnsubscribe, req_ID = 2,
                      req_Params = [AString ''sub-1'']\<rparr>;
          finished = snd (subscribe_finish (\<lambda>req. (js req, None))
                      (\<lambda>b. (\<lparr>resp_ID = 2, resp_Result = True, resp_Error = []\<rparr>, None))
                      False ''sub-1'' 2 ended)
      in ws_out finished = ws_out ended @ [unsub]
         \<and> Map finished (StringKey ''sub-1'') = None
         \<and> Map finished (IntKey 2) = Some (ChanBytes 2)
         \<and> echans finished 0 = Receiving\<close>
    unfolding Let_def s_def um_def m_def unsub_def .
qed

text \<open>
  C8 as stated fails. A process subscription is active with token \<open>sub-1\<close> and the
  subscriber is receiving on the output channel 0. The caller's context is cancelled:
  the loop ends, the unsubscribe request is sent with id 2, the dispatcher hands its
  reply to the goroutine, and the goroutine returns, closing its own channel 2. The
  output channel is still open with the subscriber waiting on it: no end of stream.
  The consumer of a \<open>Watch\<close> run on that state returns on cancellation and leaves the
  state as it is: nothing is written to the connection.
\<close>

theorem subscription_teardown_counterexample:
  \<open>\<forall>js um.
     (let p = \<lparr>p_id = ''aaaaaaaaaaaa'', p_cmd = ''ls'', p_Cwd = [], p_Env = None\<rparr>;
          active = (NewSandbox [] None [Inr ''{"id":2,"result":true}''])
            \<lparr>Map := [IntKey 1 \<mapsto> ChanBytes 2, StringKey ''sub-1'' \<mapsto> ChanBytes 2],
             idCh := Some 2,
             ws_out := [js \<lparr>req_JSONRPC = rpc, req_Method = processSubscribe, req_ID = 1,
                             req_Params = [AString ''onStdout'', AString (p_id p)]\<rparr>],
             bchans := (\<lambda>c. if c = 2 then Receiving else NoReceiver),
             echans := (\<lambda>c. if c = 0 then Receiving else NoReceiver),
             next_chan := 3\<rparr>;
          umU = (\<lambda>b. (\<lparr>resp_ID = 2, resp_Result = True, resp_Error = []\<rparr>, None));
          cancelled = subscribe_loop_iter um (Some Canceled) PickCtx p 0 2 active;
          unsubscribing = subscribe_finish (\<lambda>req. (js req, None)) umU False ''sub-1'' 2
                            (snd cancelled);
          replied = read_loop (\<lambda>b. (\<lparr>dec_Method = [], dec_ID = 2, dec_Subscription = []\<rparr>, None))
                      [False, False] ([], snd unsubscribing);
          returned = subscribe_unsub_reply umU 2 (snd (snd replied))
      in fst cancelled = Stop (Ret ())
         \<and> fst unsubscribing = Blocks
         \<and> fst replied = Continue
         \<and> fst returned = Ret ()
         \<and> bchans (snd returned) 2 = Closed
         \<and> echans (snd returned) 0 = Receiving
         \<and> Watch_consumer um (Some Canceled) ''/tmp'' 0 2 active = (Stop (Ret ()), active))\<close>
  by (simp add: Let_def subscribe_loop_iter_def Done_def select3_def subscribe_finish_def
      writeRequest_def subscribe_unsub_reply_def chan_recv_def decodeResponse_def
      close_bchan_def Watch_consumer_def NewSandbox_def identify_iter_def
      read_iter_def read_default_def read_dispatch_def frame_key_def chan_send_def)

section \<open>Properties of \<open>Done\<close>\<close>
















end
